theory Spec2Isabelle
  imports Complex_Main "HOL-Library.AList" "HOL-Library.Sublist"
begin

section \<open>JavaScript values\<close>

text \<open>
  The request bodies, the persisted style profile and the output of \<^verbatim>\<open>JSON.parse\<close> are
  dynamically shaped, and the program probes them for fields that may be absent. They are
  modelled by one datatype of JavaScript values. An object is the list of its own
  properties in insertion order. A number is the real it denotes (\<^verbatim>\<open>NaN\<close> is not a value
  of JSON and has no constructor). A string is the list of its code units.
\<close>

datatype jsval =
    JUndefined
  | JNull
  | JBool bool
  | JNum real
  | JStr string
  | JArr "jsval list"
  | JObj "(string \<times> jsval) list"

text \<open>A thrown \<^verbatim>\<open>Error\<close>: its name and its message.\<close>

datatype js_error = JsError (err_name: string) (err_message: string)

text \<open>\<^verbatim>\<open>String(err)\<close> for an \<^verbatim>\<open>Error\<close>, which is \<^verbatim>\<open>Error.prototype.toString\<close>.\<close>

definition String_err :: "js_error \<Rightarrow> string" where
  "String_err e =
     (if err_name e = [] then err_message e
      else if err_message e = [] then err_name e
      else err_name e @ '': '' @ err_message e)"

text \<open>The conversion to boolean of \<^verbatim>\<open>if (v)\<close>, \<^verbatim>\<open>!v\<close>, \<^verbatim>\<open>a || b\<close> and \<^verbatim>\<open>filter(Boolean)\<close>.\<close>

fun truthy :: "jsval \<Rightarrow> bool" where
  "truthy JUndefined = False"
| "truthy JNull = False"
| "truthy (JBool b) = b"
| "truthy (JNum r) = (r \<noteq> 0)"
| "truthy (JStr s) = (s \<noteq> [])"
| "truthy (JArr xs) = True"
| "truthy (JObj kvs) = True"

text \<open>The values at which \<^verbatim>\<open>?.\<close> short-circuits and \<^verbatim>\<open>??\<close> takes its right operand.\<close>

fun nullish :: "jsval \<Rightarrow> bool" where
  "nullish JUndefined = True"
| "nullish JNull = True"
| "nullish v = False"

text \<open>
  Reading the property \<open>k\<close> of a value that is neither \<^verbatim>\<open>null\<close> nor \<^verbatim>\<open>undefined\<close>. The
  program reads only data properties by fixed names (\<^verbatim>\<open>message\<close>, \<^verbatim>\<open>mode\<close>, \<^verbatim>\<open>stress\<close>,
  \<^verbatim>\<open>machines\<close>, \<^verbatim>\<open>tone\<close> and so on), none of which a string, a number, a boolean or an
  array has, so on those the result is \<^verbatim>\<open>undefined\<close>.
\<close>

fun own_prop :: "jsval \<Rightarrow> string \<Rightarrow> jsval" where
  "own_prop (JObj kvs) k = (case map_of kvs k of Some v \<Rightarrow> v | None \<Rightarrow> JUndefined)"
| "own_prop v k = JUndefined"

text \<open>The text of the \<^verbatim>\<open>TypeError\<close> of reading a property of \<^verbatim>\<open>null\<close> or \<^verbatim>\<open>undefined\<close>.\<close>

definition read_error :: "jsval \<Rightarrow> string \<Rightarrow> js_error" where
  \<open>read_error v k =
     JsError ''TypeError''
       (''Cannot read properties of '' @ (if v = JNull then ''null'' else ''undefined'')
        @ '' (reading '' @ [CHR 0x27] @ k @ [CHR 0x27] @ '')'')\<close>

text \<open>\<^verbatim>\<open>v.k\<close>: throws on \<^verbatim>\<open>null\<close> and \<^verbatim>\<open>undefined\<close>.\<close>

definition get_prop :: "jsval \<Rightarrow> string \<Rightarrow> js_error + jsval" where
  "get_prop v k = (if nullish v then Inl (read_error v k) else Inr (own_prop v k))"

text \<open>\<^verbatim>\<open>v?.k\<close>: \<^verbatim>\<open>undefined\<close> on \<^verbatim>\<open>null\<close> and \<^verbatim>\<open>undefined\<close>.\<close>

definition opt_prop :: "jsval \<Rightarrow> string \<Rightarrow> jsval" where
  "opt_prop v k = (if nullish v then JUndefined else own_prop v k)"

text \<open>
  \<^verbatim>\<open>{ ...a, ...b }\<close> on property lists: each property of \<open>b\<close> is defined on the result in
  turn; a key already present keeps its place and takes the new value, also when the new
  value is \<^verbatim>\<open>undefined\<close>.
\<close>

definition obj_spread :: "(string \<times> jsval) list \<Rightarrow> (string \<times> jsval) list \<Rightarrow> (string \<times> jsval) list" where
  "obj_spread a b = foldl (\<lambda>acc (k, v). AList.update k v acc) a b"

text \<open>\<^verbatim>\<open>xs.join(sep)\<close> on an array of strings.\<close>

fun js_join :: "string \<Rightarrow> string list \<Rightarrow> string" where
  "js_join sep [] = []"
| "js_join sep [s] = s"
| "js_join sep (s # t # ss) = s @ sep @ js_join sep (t # ss)"

text \<open>
  The string a template literal \<^verbatim>\<open>`${v}`\<close> inserts. The decimal text of a number is the
  runtime's business and is a parameter.
\<close>

fun js_to_string :: "(real \<Rightarrow> string) \<Rightarrow> jsval \<Rightarrow> string" where
  "js_to_string f JUndefined = ''undefined''"
| "js_to_string f JNull = ''null''"
| "js_to_string f (JBool b) = (if b then ''true'' else ''false'')"
| "js_to_string f (JNum r) = f r"
| "js_to_string f (JStr s) = s"
| "js_to_string f (JArr xs) =
     js_join '','' (map (\<lambda>x. if nullish x then [] else js_to_string f x) xs)"
| "js_to_string f (JObj kvs) = ''[object Object]''"

text \<open>\<^verbatim>\<open>typeof v\<close>.\<close>

fun typeof :: "jsval \<Rightarrow> string" where
  "typeof JUndefined = ''undefined''"
| "typeof JNull = ''object''"
| "typeof (JBool b) = ''boolean''"
| "typeof (JNum r) = ''number''"
| "typeof (JStr s) = ''string''"
| "typeof (JArr xs) = ''object''"
| "typeof (JObj kvs) = ''object''"

text \<open>The characters of a value known to be a string.\<close>

fun string_of :: "jsval \<Rightarrow> string" where
  "string_of (JStr s) = s"
| "string_of v = []"

subsection \<open>Strings\<close>

text \<open>
  \<^verbatim>\<open>s.toLowerCase()\<close> on the 256 code units HOL's \<open>char\<close> has: the letters A to Z and the
  Latin-1 capitals (0xC0 to 0xDE without the multiplication sign 0xD7) move up by 32.
\<close>

definition lower_char :: "char \<Rightarrow> char" where
  "lower_char c =
     (let n = (of_char c :: nat)
      in if (65 \<le> n \<and> n \<le> 90) \<or> (192 \<le> n \<and> n \<le> 222 \<and> n \<noteq> 215)
         then char_of (n + 32) else c)"

definition toLowerCase :: "string \<Rightarrow> string" where
  "toLowerCase s = map lower_char s"

text \<open>\<^verbatim>\<open>s.includes(t)\<close>: \<open>t\<close> occurs in \<open>s\<close> as a contiguous run.\<close>

fun str_includes :: "string \<Rightarrow> string \<Rightarrow> bool" where
  "str_includes [] t = (t = [])"
| "str_includes (c # s) t = (prefix t (c # s) \<or> str_includes s t)"

text \<open>\<^verbatim>\<open>s.trim()\<close>: white space and line terminators go from both ends.\<close>

definition is_space :: "char \<Rightarrow> bool" where
  "is_space c = (c \<in> set [CHR 0x09, CHR 0x0A, CHR 0x0B, CHR 0x0C, CHR 0x0D, CHR 0x20, CHR 0xA0])"

definition js_trim :: "string \<Rightarrow> string" where
  "js_trim s = rev (dropWhile is_space (rev (dropWhile is_space s)))"

section \<open>The collaborators\<close>

text \<open>A chat message \<^verbatim>\<open>{role, content}\<close>; a stored conversation turn is read as one.\<close>

record message =
  role :: string
  content :: string

text \<open>
  What the Groq SDK resolves to: a completion with a list of choices, each with an
  optional message whose content is a string or \<^verbatim>\<open>null\<close>.
\<close>

datatype completion_message = CompletionMessage (content_opt: "string option")

datatype choice = Choice (message_opt: "completion_message option")

datatype completion = Completion (choices: "choice list")

text \<open>The outbound calls of a request, in program order.\<close>

datatype event =
    GroqCall "message list"
  | GeminiCall string
  | AppendConversation jsval string string
  | SaveSchematic jsval jsval
  | SaveBlueprintFile jsval jsval

text \<open>
  What the program imports and does not define: the four prompt texts of
  \<^verbatim>\<open>prompts.js\<close>, the runtime's \<^verbatim>\<open>JSON.parse\<close> (\<open>Inl\<close> is the thrown error) and
  \<^verbatim>\<open>JSON.stringify(v, null, 2)\<close>, the decimal text of a number, the two model back ends
  and \<^verbatim>\<open>estimateStress\<close> of \<^verbatim>\<open>tools/createSim.js\<close>. A model back end sees the calls made
  so far, so it may answer the same request differently each time; \<open>Inl\<close> is a rejected
  call.
\<close>

record env =
  CREATE_MODE_PROMPT :: string
  PRO_MODE_PROMPT :: string
  GENERAL_MODE_PROMPT :: string
  AUTO_ROUTER_PROMPT :: string
  json_parse :: "string \<Rightarrow> js_error + jsval"
  json_stringify :: "jsval \<Rightarrow> string"
  number_text :: "real \<Rightarrow> string"
  groq_create :: "event list \<Rightarrow> message list \<Rightarrow> js_error + completion"
  gemini_generate :: "event list \<Rightarrow> string \<Rightarrow> js_error + string"
  estimateStress :: "jsval \<Rightarrow> jsval \<Rightarrow> jsval"

text \<open>A project of the store: its conversation and its saved schematics.\<close>

record project =
  conversation :: "message list"
  schematics :: "jsval list"

text \<open>
  The state outside the request: the file \<^verbatim>\<open>data/userStyle.json\<close> (\<open>None\<close> when it does
  not exist), the project store, the blueprint files and the log of outbound calls.
  File-system calls are taken to return normally.
\<close>

record world =
  profile_file :: "string option"
  projects :: "jsval \<Rightarrow> project option"
  blueprint_files :: "(jsval \<times> jsval) list"
  trace :: "event list"

subsection \<open>memory.js and schematicGenerator.js\<close>

text \<open>
  The project store and the blueprint files are written through these two modules. Their
  calls return normally here: a disk that fails is outside this model.
\<close>

text \<open>
  Modelled from the spec: \<^verbatim>\<open>memory.js\<close> is not among the sources.
  \<^verbatim>\<open>loadProject(name)\<close> returns the project \<^verbatim>\<open>{conversation, ...}\<close>, here \<open>None\<close> for a
  name never written.
\<close>

definition loadProject :: "jsval \<Rightarrow> world \<Rightarrow> project option" where
  "loadProject name w = projects w name"

text \<open>The conversation of a project as \<open>loadProject\<close> shows it, empty for a new name.\<close>

definition conversation_of :: "jsval \<Rightarrow> world \<Rightarrow> message list" where
  "conversation_of name w =
     (case loadProject name w of None \<Rightarrow> [] | Some p \<Rightarrow> conversation p)"

text \<open>
  Modelled from the spec: \<^verbatim>\<open>memory.js\<close> is not among the sources.
  \<^verbatim>\<open>appendConversation(name, role, content)\<close> adds one turn at the end of the project's
  conversation; the log is append-only and a project is created by its first write.
\<close>

definition appendConversation :: "jsval \<Rightarrow> string \<Rightarrow> string \<Rightarrow> world \<Rightarrow> world" where
  "appendConversation name r c w =
     (let turn = \<lparr>role = r, content = c\<rparr>;
          p = (case projects w name of
                 None \<Rightarrow> \<lparr>conversation = [turn], schematics = []\<rparr>
               | Some q \<Rightarrow> q\<lparr>conversation := conversation q @ [turn]\<rparr>)
      in w\<lparr>projects := (projects w)(name \<mapsto> p),
           trace := trace w @ [AppendConversation name r c]\<rparr>)"

text \<open>
  Modelled from the spec: \<^verbatim>\<open>memory.js\<close> is not among the sources.
  \<^verbatim>\<open>saveSchematic(name, blueprint)\<close> persists the blueprint under the project.
\<close>

definition saveSchematic :: "jsval \<Rightarrow> jsval \<Rightarrow> world \<Rightarrow> world" where
  "saveSchematic name blueprint w =
     (let p = (case projects w name of
                 None \<Rightarrow> \<lparr>conversation = [], schematics = [blueprint]\<rparr>
               | Some q \<Rightarrow> q\<lparr>schematics := schematics q @ [blueprint]\<rparr>)
      in w\<lparr>projects := (projects w)(name \<mapsto> p),
           trace := trace w @ [SaveSchematic name blueprint]\<rparr>)"

text \<open>
  Modelled from the spec: \<^verbatim>\<open>schematicGenerator.js\<close> is not among the sources.
  \<^verbatim>\<open>saveBlueprintFile(name, blueprint)\<close> is the second, independent sink of a blueprint.
\<close>

definition saveBlueprintFile :: "jsval \<Rightarrow> jsval \<Rightarrow> world \<Rightarrow> world" where
  "saveBlueprintFile name blueprint w =
     w\<lparr>blueprint_files := blueprint_files w @ [(name, blueprint)],
       trace := trace w @ [SaveBlueprintFile name blueprint]\<rparr>"

section \<open>userProfile.js\<close>

definition defaultProfile :: "(string \<times> jsval) list" where
  "defaultProfile =
     [(''tone'', JStr ''friendly''),
      (''detail'', JStr ''medium''),
      (''emojis'', JStr ''some''),
      (''formatting'', JStr ''markdown'')]"

text \<open>\<^verbatim>\<open>saveUserProfile(style)\<close>, for a \<open>style\<close> that is an object.\<close>

definition saveUserProfile :: "env \<Rightarrow> (string \<times> jsval) list \<Rightarrow> world \<Rightarrow> jsval \<times> world" where
  "saveUserProfile env style w =
     (let merged = obj_spread (obj_spread [] defaultProfile) style
      in (JObj merged, w\<lparr>profile_file := Some (json_stringify env (JObj merged))\<rparr>))"

text \<open>
  \<^verbatim>\<open>loadUserProfile()\<close>: the \<^verbatim>\<open>try\<close> covers reading and parsing, and its \<^verbatim>\<open>catch\<close> returns
  the defaults (the error goes to the console, which is not modelled).
\<close>

definition loadUserProfile :: "env \<Rightarrow> world \<Rightarrow> jsval \<times> world" where
  "loadUserProfile env w =
     (case profile_file w of
        None \<Rightarrow>
          (JObj defaultProfile,
           w\<lparr>profile_file := Some (json_stringify env (JObj defaultProfile))\<rparr>)
      | Some text \<Rightarrow>
          (case json_parse env text of
             Inr v \<Rightarrow> (v, w)
           | Inl e \<Rightarrow> (JObj defaultProfile, w)))"

section \<open>aiRouter.js\<close>

text \<open>What \<^verbatim>\<open>res.json\<close> is given, with the status set before it (200 when none is set).\<close>

datatype response = Response (status: nat) (payload: jsval)

subsection \<open>Prompt parts\<close>

text \<open>
  \<^verbatim>\<open>styleInstruction(profile)\<close>. The template begins and ends with one line break, which
  \<^verbatim>\<open>trim()\<close> removes. Reading \<^verbatim>\<open>profile.tone\<close> throws when the stored profile is \<^verbatim>\<open>null\<close>.
\<close>

definition styleInstruction :: "env \<Rightarrow> jsval \<Rightarrow> js_error + string" where
  "styleInstruction env profile =
     (case get_prop profile ''tone'' of
        Inl e \<Rightarrow> Inl e
      | Inr tone \<Rightarrow>
          Inr (''User style settings:\<newline>''
               @ ''- tone: '' @ js_to_string (number_text env) tone @ ''\<newline>''
               @ ''- detail: '' @ js_to_string (number_text env) (own_prop profile ''detail'') @ ''\<newline>''
               @ ''- emojis: '' @ js_to_string (number_text env) (own_prop profile ''emojis'') @ ''\<newline>''
               @ ''- formatting: '' @ js_to_string (number_text env) (own_prop profile ''formatting'') @ ''\<newline>''
               @ ''\<newline>''
               @ ''Respect these settings while answering.''))"

definition basePromptForMode :: "env \<Rightarrow> jsval \<Rightarrow> string" where
  "basePromptForMode env mode =
     (if mode = JStr ''create'' then CREATE_MODE_PROMPT env
      else if mode = JStr ''pro'' then PRO_MODE_PROMPT env
      else GENERAL_MODE_PROMPT env)"

subsection \<open>The chat model\<close>

text \<open>\<^verbatim>\<open>completion.choices[0]?.message?.content\<close>; \<open>None\<close> is \<^verbatim>\<open>null\<close> or \<^verbatim>\<open>undefined\<close>.\<close>

definition first_content :: "completion \<Rightarrow> string option" where
  "first_content c =
     (case choices c of
        [] \<Rightarrow> None
      | ch # rest \<Rightarrow> (case message_opt ch of None \<Rightarrow> None | Some m \<Rightarrow> content_opt m))"

text \<open>\<^verbatim>\<open>... ?? "(no reply)"\<close>: the placeholder replaces a missing content only.\<close>

definition reply_text :: "completion \<Rightarrow> string" where
  "reply_text c = (case first_content c of None \<Rightarrow> ''(no reply)'' | Some t \<Rightarrow> t)"

text \<open>\<^verbatim>\<open>groqChat(messages)\<close>: one call to the chat model, logged.\<close>

definition groqChat :: "env \<Rightarrow> message list \<Rightarrow> world \<Rightarrow> (js_error + string) \<times> world" where
  "groqChat env messages w =
     (let w' = w\<lparr>trace := trace w @ [GroqCall messages]\<rparr>
      in case groq_create env (trace w) messages of
           Inl e \<Rightarrow> (Inl e, w')
         | Inr completion \<Rightarrow> (Inr (reply_text completion), w'))"

subsection \<open>Mode classification\<close>

text \<open>The keyword heuristic that ends \<^verbatim>\<open>autoMode\<close>.\<close>

definition keyword_mode :: "string \<Rightarrow> string" where
  "keyword_mode message =
     (let lower = toLowerCase message
      in if str_includes lower ''create '' \<or> str_includes lower ''factory''
            \<or> str_includes lower ''kinetic''
         then ''create''
         else if str_includes lower ''forge'' \<or> str_includes lower ''fabric''
                 \<or> str_includes lower ''gradle''
         then ''pro''
         else ''general'')"

text \<open>
  The \<^verbatim>\<open>try\<close> block of \<^verbatim>\<open>autoMode\<close>: \<open>Inl\<close> is an exception (of the model call, of
  \<^verbatim>\<open>JSON.parse\<close>, or of reading \<^verbatim>\<open>mode\<close> off \<^verbatim>\<open>null\<close>), \<open>Inr (Some m)\<close> is
  \<^verbatim>\<open>return parsed.mode\<close>, \<open>Inr None\<close> leaves the block without returning.
\<close>

definition router_messages :: "env \<Rightarrow> string \<Rightarrow> message list" where
  "router_messages env message =
     [\<lparr>role = ''system'', content = AUTO_ROUTER_PROMPT env\<rparr>,
      \<lparr>role = ''user'', content = message\<rparr>]"

definition router_try :: "env \<Rightarrow> string \<Rightarrow> world \<Rightarrow> (js_error + jsval option) \<times> world" where
  "router_try env message w =
     (case groqChat env (router_messages env message) w of
        (Inl e, w') \<Rightarrow> (Inl e, w')
      | (Inr raw, w') \<Rightarrow>
          (case json_parse env raw of
             Inl e \<Rightarrow> (Inl e, w')
           | Inr parsed \<Rightarrow>
               (case get_prop parsed ''mode'' of
                  Inl e \<Rightarrow> (Inl e, w')
                | Inr m \<Rightarrow>
                    (if m = JStr ''create'' \<or> m = JStr ''pro'' \<or> m = JStr ''general''
                     then (Inr (Some m), w')
                     else (Inr None, w')))))"

text \<open>\<^verbatim>\<open>autoMode(message)\<close>: the \<^verbatim>\<open>catch\<close> only warns, and the heuristic follows.\<close>

definition autoMode :: "env \<Rightarrow> string \<Rightarrow> world \<Rightarrow> jsval \<times> world" where
  "autoMode env message w =
     (case router_try env message w of
        (Inr (Some m), w') \<Rightarrow> (m, w')
      | (Inr None, w') \<Rightarrow> (JStr (keyword_mode message), w')
      | (Inl e, w') \<Rightarrow> (JStr (keyword_mode message), w'))"

text \<open>\<^verbatim>\<open>mode === "auto" ? await autoMode(message) : mode\<close>.\<close>

definition classify :: "env \<Rightarrow> string \<Rightarrow> jsval \<Rightarrow> world \<Rightarrow> jsval \<times> world" where
  "classify env message mode w =
     (if mode = JStr ''auto'' then autoMode env message w else (mode, w))"

subsection \<open>Prompt composition\<close>

text \<open>\<^verbatim>\<open>`[${m.role}] ${m.content.slice(0, 200)}`\<close>.\<close>

definition render_turn :: "message \<Rightarrow> string" where
  "render_turn m = ''['' @ role m @ ''] '' @ take 200 (content m)"

text \<open>\<^verbatim>\<open>conversation.slice(-4)\<close>.\<close>

definition last4 :: "'a list \<Rightarrow> 'a list" where
  "last4 xs = drop (length xs - 4) xs"

text \<open>The history block of a conversation; an empty one has length 0, which is falsy.\<close>

definition history_block :: "message list \<Rightarrow> string" where
  "history_block conv =
     (if conv = [] then []
      else ''Recent project messages:\<newline>'' @ js_join ''\<newline>'' (map render_turn (last4 conv)))"

text \<open>\<^verbatim>\<open>historyText\<close> as the chat route computes it.\<close>

definition historyText :: "jsval \<Rightarrow> world \<Rightarrow> string" where
  "historyText projectName w =
     (if truthy projectName
      then (case loadProject projectName w of
              None \<Rightarrow> []
            | Some project \<Rightarrow> history_block (conversation project))
      else [])"

text \<open>\<^verbatim>\<open>[modePrompt, styleText, historyText].filter(Boolean).join("\n\n")\<close>.\<close>

definition compose :: "string \<Rightarrow> string \<Rightarrow> string \<Rightarrow> string" where
  "compose modePrompt styleText history =
     js_join ''\<newline>\<newline>'' (filter (\<lambda>s. s \<noteq> []) [modePrompt, styleText, history])"

subsection \<open>POST /chat\<close>

text \<open>
  The \<^verbatim>\<open>try\<close> block after validation, up to the chat request: the resolved mode and the
  two messages to send. \<open>Inl\<close> is what the \<^verbatim>\<open>catch\<close> of the route receives.
\<close>

definition chat_prepare :: "env \<Rightarrow> string \<Rightarrow> jsval \<Rightarrow> jsval \<Rightarrow> world \<Rightarrow> (js_error + jsval \<times> message list) \<times> world" where
  "chat_prepare env message mode projectName w =
     (case loadUserProfile env w of
        (profile, w1) \<Rightarrow>
          (case classify env message mode w1 of
             (chosenMode, w2) \<Rightarrow>
               (case styleInstruction env profile of
                  Inl e \<Rightarrow> (Inl e, w2)
                | Inr styleText \<Rightarrow>
                    (let systemContent =
                           compose (basePromptForMode env chosenMode) styleText
                             (historyText projectName w2)
                     in (Inr (chosenMode,
                              [\<lparr>role = ''system'', content = systemContent\<rparr>,
                               \<lparr>role = ''user'', content = message\<rparr>]), w2)))))"

text \<open>The rest of the block: the chat request, the two appends, the result.\<close>

definition chat_handle :: "env \<Rightarrow> string \<Rightarrow> jsval \<Rightarrow> jsval \<Rightarrow> world \<Rightarrow> (js_error + jsval) \<times> world" where
  "chat_handle env message mode projectName w =
     (case chat_prepare env message mode projectName w of
        (Inl e, w2) \<Rightarrow> (Inl e, w2)
      | (Inr (chosenMode, messages), w2) \<Rightarrow>
          (case groqChat env messages w2 of
             (Inl e, w3) \<Rightarrow> (Inl e, w3)
           | (Inr reply, w3) \<Rightarrow>
               (Inr (JObj [(''ok'', JBool True), (''mode'', chosenMode),
                           (''reply'', JStr reply)]),
                if truthy projectName
                then appendConversation projectName ''assistant'' reply
                       (appendConversation projectName ''user'' message w3)
                else w3)))"

text \<open>\<^verbatim>\<open>mode = "auto"\<close> in the destructuring: the default replaces \<^verbatim>\<open>undefined\<close> only.\<close>

definition mode_or_auto :: "jsval \<Rightarrow> jsval" where
  "mode_or_auto v = (if v = JUndefined then JStr ''auto'' else v)"

text \<open>\<^verbatim>\<open>req.body || {}\<close>.\<close>

definition body_or_empty :: "jsval \<Rightarrow> jsval" where
  "body_or_empty body = (if truthy body then body else JObj [])"

definition chat_route :: "env \<Rightarrow> jsval \<Rightarrow> world \<Rightarrow> response \<times> world" where
  \<open>chat_route env body w =
     (let b = body_or_empty body;
          message = own_prop b ''message'';
          mode = mode_or_auto (own_prop b ''mode'');
          projectName = own_prop b ''projectName''
      in if \<not> truthy message \<or> typeof message \<noteq> ''string''
         then (Response 400
                 (JObj [(''ok'', JBool False), (''error'', JStr ''Missing 'message' string'')]), w)
         else (case chat_handle env (string_of message) mode projectName w of
                 (Inl err, w') \<Rightarrow>
                   (Response 500
                      (JObj [(''ok'', JBool False), (''error'', JStr ''AI error''),
                             (''details'', JStr (String_err err))]), w')
               | (Inr result, w') \<Rightarrow> (Response 200 result, w')))\<close>

subsection \<open>GET /style and POST /style\<close>

definition get_style_route :: "env \<Rightarrow> world \<Rightarrow> response \<times> world" where
  "get_style_route env w =
     (case loadUserProfile env w of
        (profile, w') \<Rightarrow> (Response 200 (JObj [(''ok'', JBool True), (''profile'', profile)]), w'))"

text \<open>
  The route picks four fields off the body and passes all four on, each \<^verbatim>\<open>undefined\<close> when
  the body lacks it.
\<close>

definition style_route :: "env \<Rightarrow> jsval \<Rightarrow> world \<Rightarrow> response \<times> world" where
  "style_route env body w =
     (let b = body_or_empty body;
          tone = own_prop b ''tone'';
          detail = own_prop b ''detail'';
          emojis = own_prop b ''emojis'';
          formatting = own_prop b ''formatting''
      in case saveUserProfile env
                [(''tone'', tone), (''detail'', detail), (''emojis'', emojis),
                 (''formatting'', formatting)] w of
           (updated, w') \<Rightarrow>
             (Response 200 (JObj [(''ok'', JBool True), (''profile'', updated)]), w'))"

subsection \<open>POST /schematic\<close>

definition schematic_prompt :: "string \<Rightarrow> string" where
  \<open>schematic_prompt instructions =
     js_trim (''\<newline>''
       @ ''User wants a Create/Minecraft contraption. Convert into STRICT JSON:\<newline>''
       @ ''\<newline>''
       @ ''{\<newline>''
       @ ''  "name": "short_name",\<newline>''
       @ ''  "description": "what it does",\<newline>''
       @ ''  "materials": ["key blocks/items"],\<newline>''
       @ ''  "size": "WxHxL in blocks",\<newline>''
       @ ''  "steps": [\<newline>''
       @ ''    "Step 1 ...",\<newline>''
       @ ''    "Step 2 ..."\<newline>''
       @ ''  ],\<newline>''
       @ ''  "stress": {\<newline>''
       @ ''    "machines": 4,\<newline>''
       @ ''    "baseStress": 256\<newline>''
       @ ''  }\<newline>''
       @ ''}\<newline>''
       @ ''\<newline>''
       @ ''No markdown, ONLY JSON.\<newline>''
       @ ''\<newline>''
       @ ''User instructions: '' @ instructions @ ''\<newline>'')\<close>

text \<open>The inner \<^verbatim>\<open>try\<close>: a text that does not parse becomes \<^verbatim>\<open>{parseError, raw}\<close>.\<close>

definition parse_blueprint :: "env \<Rightarrow> string \<Rightarrow> jsval" where
  "parse_blueprint env text =
     (case json_parse env text of
        Inr v \<Rightarrow> v
      | Inl err \<Rightarrow> JObj [(''parseError'', JStr (String_err err)), (''raw'', JStr text)])"

text \<open>\<^verbatim>\<open>blueprint.k = v\<close> on an object.\<close>

fun set_prop :: "jsval \<Rightarrow> string \<Rightarrow> jsval \<Rightarrow> jsval" where
  "set_prop (JObj kvs) k v = JObj (AList.update k v kvs)"
| "set_prop b k v = b"

text \<open>
  The enrichment. Its guard \<^verbatim>\<open>blueprint?.stress?.machines\<close> is truthy only for an object
  with a \<^verbatim>\<open>stress\<close> property, so the assignment is always to an object.
\<close>

definition enrich :: "env \<Rightarrow> jsval \<Rightarrow> jsval" where
  "enrich env blueprint =
     (if truthy (opt_prop (opt_prop blueprint ''stress'') ''machines'')
      then set_prop blueprint ''stressEstimate''
             (estimateStress env
                (own_prop (own_prop blueprint ''stress'') ''machines'')
                (let b = own_prop (own_prop blueprint ''stress'') ''baseStress''
                 in if truthy b then b else JNum 256))
      else blueprint)"

text \<open>The \<^verbatim>\<open>try\<close> block after validation.\<close>

definition schematic_handle :: "env \<Rightarrow> string \<Rightarrow> jsval \<Rightarrow> world \<Rightarrow> (js_error + jsval) \<times> world" where
  "schematic_handle env instructions projectName w =
     (let prompt = schematic_prompt instructions;
          w1 = w\<lparr>trace := trace w @ [GeminiCall prompt]\<rparr>
      in case gemini_generate env (trace w) prompt of
           Inl e \<Rightarrow> (Inl e, w1)
         | Inr text \<Rightarrow>
             (let blueprint = enrich env (parse_blueprint env text)
              in (Inr (JObj [(''ok'', JBool True), (''schematic'', blueprint)]),
                  if truthy projectName
                  then saveBlueprintFile projectName blueprint
                         (saveSchematic projectName blueprint w1)
                  else w1)))"

definition schematic_route :: "env \<Rightarrow> jsval \<Rightarrow> world \<Rightarrow> response \<times> world" where
  \<open>schematic_route env body w =
     (let b = body_or_empty body;
          instructions = own_prop b ''instructions'';
          projectName = own_prop b ''projectName''
      in if \<not> truthy instructions \<or> typeof instructions \<noteq> ''string''
         then (Response 400
                 (JObj [(''ok'', JBool False),
                        (''error'', JStr ''Missing 'instructions' string'')]), w)
         else (case schematic_handle env (string_of instructions) projectName w of
                 (Inl err, w') \<Rightarrow>
                   (Response 500
                      (JObj [(''ok'', JBool False), (''error'', JStr ''Schematic AI error''),
                             (''details'', JStr (String_err err))]), w')
               | (Inr result, w') \<Rightarrow> (Response 200 result, w')))\<close>

section \<open>An environment for the worked examples\<close>

text \<open>
  The examples below run the routes on concrete requests. Their environment answers as
  the runtime does at the values the examples meet: \<open>demo_parse\<close> knows the JSON texts
  listed and rejects every other text, \<open>demo_stringify\<close> knows the profiles listed.
\<close>

definition demo_syntax_error :: js_error where
  "demo_syntax_error = JsError ''SyntaxError'' ''Unexpected token''"

definition demo_parse :: "string \<Rightarrow> js_error + jsval" where
  \<open>demo_parse s =
     (if s = ''{"stress":{"machines":4,"baseStress":256}}''
      then Inr (JObj [(''stress'', JObj [(''machines'', JNum 4), (''baseStress'', JNum 256)])])
      else if s = ''{"name":"sign","stress":{"machines":0}}''
      then Inr (JObj [(''name'', JStr ''sign''), (''stress'', JObj [(''machines'', JNum 0)])])
      else if s = ''{"mode":"redstone"}''
      then Inr (JObj [(''mode'', JStr ''redstone'')])
      else Inl demo_syntax_error)\<close>

definition demo_stringify :: "jsval \<Rightarrow> string" where
  \<open>demo_stringify v =
     (if v = JObj defaultProfile
      then ''{\<newline>  "tone": "friendly",\<newline>  "detail": "medium",\<newline>  "emojis": "some",\<newline>  "formatting": "markdown"\<newline>}''
      else if v = JObj [(''tone'', JStr ''formal''), (''detail'', JStr ''high''),
                        (''emojis'', JStr ''none''), (''formatting'', JStr ''plain'')]
      then ''{\<newline>  "tone": "formal",\<newline>  "detail": "high",\<newline>  "emojis": "none",\<newline>  "formatting": "plain"\<newline>}''
      else if v = JObj [(''tone'', JStr ''blunt''), (''detail'', JUndefined),
                        (''emojis'', JUndefined), (''formatting'', JUndefined)]
      then ''{\<newline>  "tone": "blunt"\<newline>}''
      else ''{}'')\<close>

definition demo_completion :: "string option \<Rightarrow> completion" where
  "demo_completion t = Completion [Choice (Some (CompletionMessage t))]"

text \<open>A stand-in for the stress formula, which the program only calls.\<close>

definition demo_estimate :: "jsval \<Rightarrow> jsval \<Rightarrow> jsval" where
  "demo_estimate m b = (case (m, b) of (JNum x, JNum y) \<Rightarrow> JNum (x * y) | _ \<Rightarrow> JNull)"

definition demo_env :: env where
  \<open>demo_env =
     \<lparr>CREATE_MODE_PROMPT = ''You are a Create mod engineer.'',
      PRO_MODE_PROMPT = ''You are a mod developer.'',
      GENERAL_MODE_PROMPT = ''You are a helpful assistant.'',
      AUTO_ROUTER_PROMPT = ''Reply with JSON {"mode": ...}.'',
      json_parse = demo_parse,
      json_stringify = demo_stringify,
      number_text = (\<lambda>r. ''0''),
      groq_create = (\<lambda>tr ms. Inr (demo_completion (Some ''Use a water wheel.''))),
      gemini_generate = (\<lambda>tr p. Inr ''{"stress":{"machines":4,"baseStress":256}}''),
      estimateStress = demo_estimate\<rparr>\<close>

text \<open>The chat model is down: every call is rejected.\<close>

definition offline_error :: js_error where
  "offline_error = JsError ''Error'' ''Connection error.''"

definition offline_env :: env where
  "offline_env = demo_env\<lparr>groq_create := (\<lambda>tr ms. Inl offline_error)\<rparr>"

text \<open>The first call to the chat model is rejected, the later ones are answered.\<close>

definition flaky_env :: env where
  "flaky_env =
     demo_env\<lparr>groq_create :=
       (\<lambda>tr ms. if tr = [] then Inl offline_error
                 else Inr (demo_completion (Some ''Use a water wheel.'')))\<rparr>"

text \<open>The chat model answers the router with a mode that does not exist.\<close>

definition redstone_env :: env where
  \<open>redstone_env =
     demo_env\<lparr>groq_create := (\<lambda>tr ms. Inr (demo_completion (Some ''{"mode":"redstone"}'')))\<rparr>\<close>

text \<open>The chat model answers with a completion that has no content.\<close>

definition null_reply_env :: env where
  "null_reply_env = demo_env\<lparr>groq_create := (\<lambda>tr ms. Inr (demo_completion None))\<rparr>"

text \<open>The chat model answers with the empty text.\<close>

definition empty_reply_env :: env where
  "empty_reply_env = demo_env\<lparr>groq_create := (\<lambda>tr ms. Inr (demo_completion (Some [])))\<rparr>"

text \<open>The blueprint model answers in prose, and with a blueprint that has no machines.\<close>

definition prose_env :: env where
  "prose_env = demo_env\<lparr>gemini_generate := (\<lambda>tr p. Inr ''Sure! Here is your windmill.'')\<rparr>"

definition sign_env :: env where
  \<open>sign_env =
     demo_env\<lparr>gemini_generate := (\<lambda>tr p. Inr ''{"name":"sign","stress":{"machines":0}}'')\<rparr>\<close>

text \<open>The world before anything was written, and one whose style file is damaged.\<close>

definition fresh_world :: world where
  "fresh_world = \<lparr>profile_file = None, projects = (\<lambda>name. None), blueprint_files = [], trace = []\<rparr>"

definition corrupt_world :: world where
  "corrupt_world = fresh_world\<lparr>profile_file := Some ''{tone:''\<rparr>"

text \<open>A project with six turns, the fourth of them 250 characters long.\<close>

definition long_turn :: message where
  "long_turn = \<lparr>role = ''assistant'', content = replicate 250 (CHR ''x'')\<rparr>"

definition six_turns :: "message list" where
  "six_turns =
     [\<lparr>role = ''user'', content = ''one''\<rparr>,
      \<lparr>role = ''assistant'', content = ''two''\<rparr>,
      \<lparr>role = ''user'', content = ''three''\<rparr>,
      long_turn,
      \<lparr>role = ''user'', content = ''five''\<rparr>,
      \<lparr>role = ''assistant'', content = ''six''\<rparr>]"

definition p1_world :: world where
  "p1_world =
     fresh_world\<lparr>projects :=
       (\<lambda>name. None)(JStr ''p1'' \<mapsto> \<lparr>conversation = six_turns, schematics = []\<rparr>)\<rparr>"

text \<open>
  A chat request on that project with an explicit mode, the two messages the route
  sends for it, and the world at the moment it sends them (the style file has been
  created by then).
\<close>

definition p1_body :: jsval where
  "p1_body = JObj [(''message'', JStr ''next step?''), (''mode'', JStr ''general''),
                   (''projectName'', JStr ''p1'')]"

definition p1_messages :: "message list" where
  "p1_messages =
     [\<lparr>role = ''system'',
       content = compose (GENERAL_MODE_PROMPT demo_env)
                   (projr (styleInstruction demo_env (JObj defaultProfile)))
                   (history_block six_turns)\<rparr>,
      \<lparr>role = ''user'', content = ''next step?''\<rparr>]"

definition p1_loaded :: world where
  "p1_loaded = p1_world\<lparr>profile_file := Some (json_stringify demo_env (JObj defaultProfile))\<rparr>"



text \<open>A partial update and nothing else.\<close>

definition blunt_only_body :: jsval where
  "blunt_only_body = JObj [(''tone'', JStr ''blunt'')]"


section \<open>The style profile store\<close>

text \<open>
  C10. \<open>loadUserProfile\<close> always returns a profile. When the style file exists and its
  text does not parse, the result is the default profile
  \<^verbatim>\<open>{tone:"friendly", detail:"medium", emojis:"some", formatting:"markdown"}\<close> and nothing is
  written; when the file does not exist, the defaults are written to it and returned.
\<close>

theorem loadUserProfile_total:
  "(profile_file w = Some s \<and> json_parse env s = Inl e \<longrightarrow>
      loadUserProfile env w =
        (JObj [(''tone'', JStr ''friendly''), (''detail'', JStr ''medium''),
               (''emojis'', JStr ''some''), (''formatting'', JStr ''markdown'')], w))
   \<and> (profile_file w = None \<longrightarrow>
        loadUserProfile env w =
          (JObj [(''tone'', JStr ''friendly''), (''detail'', JStr ''medium''),
                 (''emojis'', JStr ''some''), (''formatting'', JStr ''markdown'')],
           w\<lparr>profile_file :=
               Some (json_stringify env
                 (JObj [(''tone'', JStr ''friendly''), (''detail'', JStr ''medium''),
                        (''emojis'', JStr ''some''), (''formatting'', JStr ''markdown'')]))\<rparr>))"
  by (simp add: loadUserProfile_def defaultProfile_def)

theorem loadUserProfile_total_witness:
  \<open>profile_file corrupt_world = Some ''{tone:''
   \<and> json_parse demo_env ''{tone:'' = Inl demo_syntax_error
   \<and> loadUserProfile demo_env corrupt_world =
        (JObj [(''tone'', JStr ''friendly''), (''detail'', JStr ''medium''),
               (''emojis'', JStr ''some''), (''formatting'', JStr ''markdown'')], corrupt_world)
   \<and> profile_file fresh_world = None
   \<and> loadUserProfile demo_env fresh_world =
        (JObj [(''tone'', JStr ''friendly''), (''detail'', JStr ''medium''),
               (''emojis'', JStr ''some''), (''formatting'', JStr ''markdown'')],
         fresh_world\<lparr>profile_file :=
           Some ''{\<newline>  "tone": "friendly",\<newline>  "detail": "medium",\<newline>  "emojis": "some",\<newline>  "formatting": "markdown"\<newline>}''\<rparr>)\<close>
  using loadUserProfile_total [where w = corrupt_world and s = "''{tone:''"
          and env = demo_env and e = demo_syntax_error]
        loadUserProfile_total [where w = fresh_world and env = demo_env]
  by (simp add: corrupt_world_def fresh_world_def demo_env_def demo_parse_def
        demo_stringify_def defaultProfile_def)

section \<open>Input validation\<close>

text \<open>
  C8. A chat request whose \<^verbatim>\<open>message\<close> is missing or not a string is answered at once with
  status 400 and \<^verbatim>\<open>{ok: false, error: "Missing 'message' string"}\<close>; a schematic request
  whose \<^verbatim>\<open>instructions\<close> is missing or not a string is answered likewise with
  \<^verbatim>\<open>ok: false\<close>. The world is returned as it was: no model call is logged and nothing is
  written.
\<close>

theorem missing_input_rejected:
  \<open>(typeof (own_prop (body_or_empty body) ''message'') \<noteq> ''string'' \<longrightarrow>
      chat_route env body w =
        (Response 400
           (JObj [(''ok'', JBool False), (''error'', JStr ''Missing 'message' string'')]), w))
   \<and> (typeof (own_prop (body_or_empty body) ''instructions'') \<noteq> ''string'' \<longrightarrow>
        schematic_route env body w =
          (Response 400
             (JObj [(''ok'', JBool False),
                    (''error'', JStr ''Missing 'instructions' string'')]), w))\<close>
  by (simp add: chat_route_def schematic_route_def Let_def)

theorem missing_input_rejected_witness:
  \<open>typeof (own_prop (body_or_empty (JObj [])) ''message'') \<noteq> ''string''
   \<and> chat_route demo_env (JObj []) fresh_world =
        (Response 400
           (JObj [(''ok'', JBool False), (''error'', JStr ''Missing 'message' string'')]),
         fresh_world)
   \<and> typeof (own_prop (body_or_empty (JObj [(''instructions'', JNum 5)])) ''instructions'')
        \<noteq> ''string''
   \<and> schematic_route demo_env (JObj [(''instructions'', JNum 5)]) fresh_world =
        (Response 400
           (JObj [(''ok'', JBool False),
                  (''error'', JStr ''Missing 'instructions' string'')]),
         fresh_world)\<close>
  using missing_input_rejected [where body = "JObj []" and env = demo_env and w = fresh_world]
        missing_input_rejected [where body = "JObj [(''instructions'', JNum 5)]"
          and env = demo_env and w = fresh_world]
  by (simp add: body_or_empty_def)

section \<open>Mode classification\<close>

text \<open>
  C9. With an explicit mode \<^verbatim>\<open>create\<close>, \<^verbatim>\<open>pro\<close> or \<^verbatim>\<open>general\<close>, \<open>classify\<close> returns that
  mode for every message, and the world is returned as it was: the chat model is not
  called and the message is not read.
\<close>

theorem classify_explicit_mode:
  "classify env msg (JStr ''create'') w = (JStr ''create'', w)
   \<and> classify env msg (JStr ''pro'') w = (JStr ''pro'', w)
   \<and> classify env msg (JStr ''general'') w = (JStr ''general'', w)"
  by (simp add: classify_def)

theorem classify_explicit_mode_witness:
  "classify demo_env ''build a forge mod'' (JStr ''create'') fresh_world
     = (JStr ''create'', fresh_world)
   \<and> classify offline_env ''a kinetic factory'' (JStr ''pro'') fresh_world
       = (JStr ''pro'', fresh_world)
   \<and> classify offline_env ''a kinetic factory'' (JStr ''general'') fresh_world
       = (JStr ''general'', fresh_world)"
  using classify_explicit_mode [of demo_env "''build a forge mod''" fresh_world]
        classify_explicit_mode [of offline_env "''a kinetic factory''" fresh_world]
  by simp

lemma keyword_mode_range: "keyword_mode msg \<in> {''create'', ''pro'', ''general''}"
  by (simp add: keyword_mode_def Let_def)

lemma autoMode_range:
  "fst (autoMode env msg w) \<in> {JStr ''create'', JStr ''pro'', JStr ''general''}"
proof (cases "router_try env msg w")
  case (Pair r w')
  show ?thesis
  proof (cases r)
    case (Inl e)
    with Pair keyword_mode_range [of msg] show ?thesis by (auto simp: autoMode_def)
  next
    case (Inr m)
    show ?thesis
    proof (cases m)
      case None
      with Pair Inr keyword_mode_range [of msg] show ?thesis by (auto simp: autoMode_def)
    next
      case (Some v)
      with Pair Inr have "v = JStr ''create'' \<or> v = JStr ''pro'' \<or> v = JStr ''general''"
        by (auto simp: router_try_def split: prod.splits sum.splits if_splits)
      with Pair Inr Some show ?thesis by (auto simp: autoMode_def)
    qed
  qed
qed

lemma keyword_mode_examples:
  "keyword_mode ''build a factory'' = ''create''"
  "keyword_mode ''Build a FACTORY'' = ''create''"
  "keyword_mode ''port it to fabric'' = ''pro''"
  "keyword_mode ''hello there'' = ''general''"
  by code_simp+

text \<open>
  C2. In \<^verbatim>\<open>auto\<close> mode the classification never throws: it returns one of the three
  modes for every message. Whenever the model path fails the result is the keyword mode of the
  lowercased message: when the call to the chat model is rejected, when its reply does
  not parse as JSON, and when the parsed reply is \<^verbatim>\<open>null\<close> or its \<^verbatim>\<open>mode\<close> is none of
  \<^verbatim>\<open>create\<close>, \<^verbatim>\<open>pro\<close>, \<^verbatim>\<open>general\<close>. The keyword mode is \<^verbatim>\<open>create\<close> when a create term
  occurs, else \<^verbatim>\<open>pro\<close> when a pro term occurs, else \<^verbatim>\<open>general\<close>; for
  \<^verbatim>\<open>build a factory\<close> it is \<^verbatim>\<open>create\<close>.
\<close>

theorem autoMode_fallback:
  "fst (autoMode env msg w) \<in> {JStr ''create'', JStr ''pro'', JStr ''general''}
   \<and> (groq_create env (trace w) (router_messages env msg) = Inl e \<longrightarrow>
      fst (autoMode env msg w) = JStr (keyword_mode msg))
   \<and> (groq_create env (trace w) (router_messages env msg) = Inr c
        \<and> json_parse env (reply_text c) = Inl e \<longrightarrow>
        fst (autoMode env msg w) = JStr (keyword_mode msg))
   \<and> (groq_create env (trace w) (router_messages env msg) = Inr c
        \<and> json_parse env (reply_text c) = Inr parsed
        \<and> (nullish parsed
             \<or> (own_prop parsed ''mode'' \<noteq> JStr ''create''
                 \<and> own_prop parsed ''mode'' \<noteq> JStr ''pro''
                 \<and> own_prop parsed ''mode'' \<noteq> JStr ''general'')) \<longrightarrow>
        fst (autoMode env msg w) = JStr (keyword_mode msg))
   \<and> keyword_mode msg =
        (if str_includes (toLowerCase msg) ''create ''
            \<or> str_includes (toLowerCase msg) ''factory''
            \<or> str_includes (toLowerCase msg) ''kinetic''
         then ''create''
         else if str_includes (toLowerCase msg) ''forge''
                 \<or> str_includes (toLowerCase msg) ''fabric''
                 \<or> str_includes (toLowerCase msg) ''gradle''
         then ''pro''
         else ''general'')
   \<and> keyword_mode ''build a factory'' = ''create''"
proof -
  have fallback: "fst (autoMode env msg w) = JStr (keyword_mode msg)"
    if "\<And>m. fst (router_try env msg w) \<noteq> Inr (Some m)"
    using that by (cases "router_try env msg w")
      (auto simp: autoMode_def split: sum.splits option.splits)
  have rejected: "fst (router_try env msg w) = Inl e"
    if "groq_create env (trace w) (router_messages env msg) = Inl e"
    using that by (simp add: router_try_def groqChat_def Let_def)
  have unparsed: "fst (router_try env msg w) = Inl e"
    if "groq_create env (trace w) (router_messages env msg) = Inr c"
      and "json_parse env (reply_text c) = Inl e"
    using that by (simp add: router_try_def groqChat_def Let_def)
  have unknown: "fst (router_try env msg w) = Inl (read_error parsed ''mode'')
                 \<or> fst (router_try env msg w) = Inr None"
    if "groq_create env (trace w) (router_messages env msg) = Inr c"
      and "json_parse env (reply_text c) = Inr parsed"
      and "nullish parsed
           \<or> (own_prop parsed ''mode'' \<noteq> JStr ''create''
               \<and> own_prop parsed ''mode'' \<noteq> JStr ''pro''
               \<and> own_prop parsed ''mode'' \<noteq> JStr ''general'')"
    using that by (auto simp: router_try_def groqChat_def get_prop_def Let_def)
  have words: "keyword_mode msg =
        (if str_includes (toLowerCase msg) ''create ''
            \<or> str_includes (toLowerCase msg) ''factory''
            \<or> str_includes (toLowerCase msg) ''kinetic''
         then ''create''
         else if str_includes (toLowerCase msg) ''forge''
                 \<or> str_includes (toLowerCase msg) ''fabric''
                 \<or> str_includes (toLowerCase msg) ''gradle''
         then ''pro''
         else ''general'')"
    by (simp add: keyword_mode_def Let_def)
  show ?thesis
    using autoMode_range [of env msg w] fallback rejected unparsed unknown words
      keyword_mode_examples(1)
    by (intro conjI impI) (auto simp del: str_includes.simps)
qed

theorem autoMode_fallback_witness:
  \<open>groq_create flaky_env (trace fresh_world) (router_messages flaky_env ''Build a FACTORY'')
     = Inl offline_error
   \<and> fst (autoMode flaky_env ''Build a FACTORY'' fresh_world) = JStr ''create''
   \<and> groq_create demo_env (trace fresh_world) (router_messages demo_env ''port it to fabric'')
       = Inr (demo_completion (Some ''Use a water wheel.''))
   \<and> json_parse demo_env (reply_text (demo_completion (Some ''Use a water wheel.'')))
       = Inl demo_syntax_error
   \<and> fst (autoMode demo_env ''port it to fabric'' fresh_world) = JStr ''pro''
   \<and> json_parse redstone_env (reply_text (demo_completion (Some ''{"mode":"redstone"}'')))
       = Inr (JObj [(''mode'', JStr ''redstone'')])
   \<and> fst (autoMode redstone_env ''hello there'' fresh_world) = JStr ''general''
   \<and> fst (chat_route flaky_env
            (JObj [(''message'', JStr ''build a factory''), (''mode'', JStr ''auto''),
                   (''projectName'', JNull)]) fresh_world) =
       Response 200 (JObj [(''ok'', JBool True), (''mode'', JStr ''create''),
                           (''reply'', JStr ''Use a water wheel.'')])\<close>
  using autoMode_fallback [where env = flaky_env and w = fresh_world
          and msg = "''Build a FACTORY''" and e = offline_error]
        autoMode_fallback [where env = demo_env and w = fresh_world
          and msg = "''port it to fabric''" and e = demo_syntax_error
          and c = "demo_completion (Some ''Use a water wheel.'')"]
        autoMode_fallback [where env = redstone_env and w = fresh_world
          and msg = "''hello there''"
          and c = \<open>demo_completion (Some ''{"mode":"redstone"}'')\<close>
          and parsed = "JObj [(''mode'', JStr ''redstone'')]"]
  by (simp add: chat_route_def chat_handle_def chat_prepare_def classify_def autoMode_def
        router_try_def groqChat_def loadUserProfile_def styleInstruction_def get_prop_def
        body_or_empty_def mode_or_auto_def flaky_env_def redstone_env_def demo_env_def
        fresh_world_def keyword_mode_examples reply_text_def first_content_def demo_completion_def
        demo_parse_def Let_def)

section \<open>The schematic pipeline\<close>

lemma opt_prop_own: "opt_prop v k = own_prop v k"
  by (cases v) (simp_all add: opt_prop_def)

lemma own_prop_set_prop: "own_prop (set_prop (JObj kvs) k v) k = v"
  by (simp add: update_conv')

lemma truthy_stress_is_object:
  assumes "truthy (own_prop (own_prop b ''stress'') ''machines'')"
  shows "\<exists>kvs. b = JObj kvs"
  using assms by (cases b) simp_all

lemma schematic_route_valid:
  assumes "own_prop (body_or_empty body) ''instructions'' = JStr instructions"
      and "instructions \<noteq> []"
      and "gemini_generate env (trace w) (schematic_prompt instructions) = Inr response_text"
  shows "fst (schematic_route env body w) =
           Response 200 (JObj [(''ok'', JBool True),
                               (''schematic'', enrich env (parse_blueprint env response_text))])"
  using assms by (simp add: schematic_route_def schematic_handle_def Let_def)

text \<open>
  C1. When the text the blueprint model returns does not parse as JSON, the route does not
  fail: it answers with status 200 and \<^verbatim>\<open>ok: true\<close>, and the schematic is exactly
  \<^verbatim>\<open>{parseError, raw}\<close>, with the text of the parse error and the text received. It has no
  \<^verbatim>\<open>stressEstimate\<close>.
\<close>

theorem schematic_parse_failure_degrades:
  assumes "own_prop (body_or_empty body) ''instructions'' = JStr instructions"
      and "instructions \<noteq> []"
      and "gemini_generate env (trace w) (schematic_prompt instructions) = Inr response_text"
      and "json_parse env response_text = Inl err"
  shows "fst (schematic_route env body w) =
           Response 200
             (JObj [(''ok'', JBool True),
                    (''schematic'',
                     JObj [(''parseError'', JStr (String_err err)),
                           (''raw'', JStr response_text)])])
         \<and> own_prop (JObj [(''parseError'', JStr (String_err err)),
                           (''raw'', JStr response_text)]) ''stressEstimate'' = JUndefined"
proof -
  have "parse_blueprint env response_text =
          JObj [(''parseError'', JStr (String_err err)), (''raw'', JStr response_text)]"
    using assms(4) by (simp add: parse_blueprint_def)
  then have "enrich env (parse_blueprint env response_text) =
          JObj [(''parseError'', JStr (String_err err)), (''raw'', JStr response_text)]"
    by (simp add: enrich_def opt_prop_def)
  with schematic_route_valid [OF assms(1-3)] show ?thesis by simp
qed

theorem schematic_parse_failure_degrades_witness:
  \<open>own_prop (body_or_empty (JObj [(''instructions'', JStr ''a windmill''),
                                   (''projectName'', JStr ''p1'')])) ''instructions''
     = JStr ''a windmill''
   \<and> gemini_generate prose_env (trace fresh_world) (schematic_prompt ''a windmill'')
       = Inr ''Sure! Here is your windmill.''
   \<and> json_parse prose_env ''Sure! Here is your windmill.'' = Inl demo_syntax_error
   \<and> fst (schematic_route prose_env
             (JObj [(''instructions'', JStr ''a windmill''), (''projectName'', JStr ''p1'')])
             fresh_world) =
       Response 200
         (JObj [(''ok'', JBool True),
                (''schematic'',
                 JObj [(''parseError'', JStr ''SyntaxError: Unexpected token''),
                       (''raw'', JStr ''Sure! Here is your windmill.'')])])\<close>
  using schematic_parse_failure_degrades
          [where body = "JObj [(''instructions'', JStr ''a windmill''),
                               (''projectName'', JStr ''p1'')]"
             and instructions = "''a windmill''" and env = prose_env and w = fresh_world
             and response_text = "''Sure! Here is your windmill.''"
             and err = demo_syntax_error]
  by (simp add: body_or_empty_def prose_env_def demo_env_def demo_parse_def
        demo_syntax_error_def String_err_def)

text \<open>
  C4. When the text the blueprint model returns parses as JSON and \<^verbatim>\<open>stress.machines\<close> of
  the parsed value is truthy, the schematic returned is the parsed value with
  \<^verbatim>\<open>stressEstimate\<close> set to \<open>estimateStress\<close> of the machines and of \<^verbatim>\<open>stress.baseStress\<close>,
  256 taking the place of a missing or falsy base stress; with 4 machines and base stress
  256 that is \<open>estimateStress 4 256\<close>. When \<^verbatim>\<open>stress.machines\<close> is missing or falsy the
  parsed value is returned as it is.
\<close>

theorem schematic_stress_estimate:
  assumes "own_prop (body_or_empty body) ''instructions'' = JStr instructions"
      and "instructions \<noteq> []"
      and "gemini_generate env (trace w) (schematic_prompt instructions) = Inr response_text"
      and "json_parse env response_text = Inr parsed"
  shows "(let machines = own_prop (own_prop parsed ''stress'') ''machines'';
              baseStress = own_prop (own_prop parsed ''stress'') ''baseStress'';
              estimate = estimateStress env machines
                           (if truthy baseStress then baseStress else JNum 256);
              schematic = own_prop (payload (fst (schematic_route env body w))) ''schematic''
          in status (fst (schematic_route env body w)) = 200
             \<and> own_prop (payload (fst (schematic_route env body w))) ''ok'' = JBool True
             \<and> (truthy machines \<longrightarrow>
                   schematic = set_prop parsed ''stressEstimate'' estimate
                   \<and> own_prop schematic ''stressEstimate'' = estimate)
             \<and> (machines = JNum 4 \<and> baseStress = JNum 256 \<longrightarrow>
                   own_prop schematic ''stressEstimate'' = estimateStress env (JNum 4) (JNum 256))
             \<and> (\<not> truthy machines \<longrightarrow> schematic = parsed))"
proof -
  have parsed: "parse_blueprint env response_text = parsed"
    using assms(4) by (simp add: parse_blueprint_def)
  have route: "fst (schematic_route env body w) =
      Response 200 (JObj [(''ok'', JBool True), (''schematic'', enrich env parsed)])"
    using schematic_route_valid [OF assms(1-3)] parsed by simp
  have falsy: "enrich env parsed = parsed"
    if "\<not> truthy (own_prop (own_prop parsed ''stress'') ''machines'')"
    using that by (simp add: enrich_def opt_prop_own)
  have truthy: "enrich env parsed =
      set_prop parsed ''stressEstimate''
        (estimateStress env (own_prop (own_prop parsed ''stress'') ''machines'')
           (if truthy (own_prop (own_prop parsed ''stress'') ''baseStress'')
            then own_prop (own_prop parsed ''stress'') ''baseStress'' else JNum 256))"
    if "truthy (own_prop (own_prop parsed ''stress'') ''machines'')"
    using that by (simp add: enrich_def opt_prop_own Let_def)
  have stored: "own_prop (set_prop parsed ''stressEstimate'' x) ''stressEstimate'' = x"
    if "truthy (own_prop (own_prop parsed ''stress'') ''machines'')" for x
    using truthy_stress_is_object [OF that] own_prop_set_prop by auto
  show ?thesis
    using route falsy truthy stored by (auto simp: Let_def)
qed

theorem schematic_stress_estimate_witness:
  \<open>json_parse demo_env ''{"stress":{"machines":4,"baseStress":256}}''
     = Inr (JObj [(''stress'', JObj [(''machines'', JNum 4), (''baseStress'', JNum 256)])])
   \<and> fst (schematic_route demo_env (JObj [(''instructions'', JStr ''a windmill'')]) fresh_world)
       = Response 200
           (JObj [(''ok'', JBool True),
                  (''schematic'',
                   JObj [(''stress'', JObj [(''machines'', JNum 4), (''baseStress'', JNum 256)]),
                         (''stressEstimate'', demo_estimate (JNum 4) (JNum 256))])])
   \<and> own_prop (own_prop (payload (fst (schematic_route demo_env
         (JObj [(''instructions'', JStr ''a windmill'')]) fresh_world))) ''schematic'')
         ''stressEstimate'' = estimateStress demo_env (JNum 4) (JNum 256)
   \<and> fst (schematic_route sign_env (JObj [(''instructions'', JStr ''a sign'')]) fresh_world)
       = Response 200
           (JObj [(''ok'', JBool True),
                  (''schematic'',
                   JObj [(''name'', JStr ''sign''), (''stress'', JObj [(''machines'', JNum 0)])])])\<close>
  using schematic_stress_estimate
          [where body = "JObj [(''instructions'', JStr ''a windmill'')]"
             and instructions = "''a windmill''" and env = demo_env and w = fresh_world
             and response_text = \<open>''{"stress":{"machines":4,"baseStress":256}}''\<close>
             and parsed = "JObj [(''stress'', JObj [(''machines'', JNum 4), (''baseStress'', JNum 256)])]"]
        schematic_stress_estimate
          [where body = "JObj [(''instructions'', JStr ''a sign'')]"
             and instructions = "''a sign''" and env = sign_env and w = fresh_world
             and response_text = \<open>''{"name":"sign","stress":{"machines":0}}''\<close>
             and parsed = "JObj [(''name'', JStr ''sign''), (''stress'', JObj [(''machines'', JNum 0)])]"]
  by (simp add: body_or_empty_def sign_env_def demo_env_def demo_parse_def Let_def
        schematic_route_def schematic_handle_def parse_blueprint_def enrich_def opt_prop_def)

section \<open>The chat exchange\<close>

lemma loadUserProfile_frame:
  "projects (snd (loadUserProfile env w)) = projects w"
  "trace (snd (loadUserProfile env w)) = trace w"
  by (simp_all add: loadUserProfile_def split: option.splits sum.splits)

lemma groqChat_frame:
  "projects (snd (groqChat env ms w)) = projects w"
  "trace (snd (groqChat env ms w)) = trace w @ [GroqCall ms]"
  by (simp_all add: groqChat_def Let_def split: sum.splits)

lemma router_try_world: "snd (router_try env msg w) = snd (groqChat env (router_messages env msg) w)"
  by (simp add: router_try_def split: prod.splits sum.splits)

lemma autoMode_world: "snd (autoMode env msg w) = snd (groqChat env (router_messages env msg) w)"
  using router_try_world [of env msg w]
  by (cases "router_try env msg w") (auto simp: autoMode_def split: sum.splits option.splits)

lemma classify_frame:
  "projects (snd (classify env msg mode w)) = projects w"
  "trace (snd (classify env msg mode w)) =
     trace w @ (if mode = JStr ''auto'' then [GroqCall (router_messages env msg)] else [])"
  by (simp_all add: classify_def autoMode_world groqChat_frame)

lemma chat_prepare_frame:
  assumes "chat_prepare env msg mode pn w = (r, w2)"
  shows "projects w2 = projects w"
    and "trace w2 = trace w @ (if mode = JStr ''auto'' then [GroqCall (router_messages env msg)] else [])"
proof -
  have w2: "w2 = snd (classify env msg mode (snd (loadUserProfile env w)))"
    using assms by (auto simp: chat_prepare_def Let_def split: prod.splits sum.splits)
  show "projects w2 = projects w"
    by (simp add: w2 classify_frame loadUserProfile_frame)
  show "trace w2 = trace w @ (if mode = JStr ''auto'' then [GroqCall (router_messages env msg)] else [])"
    by (simp add: w2 classify_frame loadUserProfile_frame)
qed

lemma chat_route_answered:
  assumes "own_prop (body_or_empty body) ''message'' = JStr msg"
      and "msg \<noteq> []"
      and "chat_prepare env msg (mode_or_auto (own_prop (body_or_empty body) ''mode''))
             (own_prop (body_or_empty body) ''projectName'') w = (Inr (chosenMode, messages), w2)"
      and "groq_create env (trace w2) messages = Inr c"
  shows "chat_route env body w =
           (Response 200 (JObj [(''ok'', JBool True), (''mode'', chosenMode),
                                (''reply'', JStr (reply_text c))]),
            if truthy (own_prop (body_or_empty body) ''projectName'')
            then appendConversation (own_prop (body_or_empty body) ''projectName'')
                   ''assistant'' (reply_text c)
                   (appendConversation (own_prop (body_or_empty body) ''projectName'')
                      ''user'' msg (w2\<lparr>trace := trace w2 @ [GroqCall messages]\<rparr>))
            else w2\<lparr>trace := trace w2 @ [GroqCall messages]\<rparr>)"
  using assms by (simp add: chat_route_def chat_handle_def groqChat_def Let_def)

lemma chat_route_rejected:
  assumes "own_prop (body_or_empty body) ''message'' = JStr msg"
      and "msg \<noteq> []"
      and "chat_prepare env msg (mode_or_auto (own_prop (body_or_empty body) ''mode''))
             (own_prop (body_or_empty body) ''projectName'') w = (Inr (chosenMode, messages), w2)"
      and "groq_create env (trace w2) messages = Inl e"
  shows "chat_route env body w =
           (Response 500 (JObj [(''ok'', JBool False), (''error'', JStr ''AI error''),
                                (''details'', JStr (String_err e))]),
            w2\<lparr>trace := trace w2 @ [GroqCall messages]\<rparr>)"
  using assms by (simp add: chat_route_def chat_handle_def groqChat_def Let_def)

lemma two_appends:
  "conversation_of name (appendConversation name r2 c2 (appendConversation name r1 c1 w)) =
     conversation_of name w @ [\<lparr>role = r1, content = c1\<rparr>, \<lparr>role = r2, content = c2\<rparr>]"
  "q \<noteq> name \<Longrightarrow>
     projects (appendConversation name r2 c2 (appendConversation name r1 c1 w)) q = projects w q"
  "trace (appendConversation name r2 c2 (appendConversation name r1 c1 w)) =
     trace w @ [AppendConversation name r1 c1, AppendConversation name r2 c2]"
  by (simp_all add: appendConversation_def conversation_of_def loadProject_def Let_def
        split: option.splits)

lemma p1_prepare:
  "chat_prepare demo_env ''next step?'' (JStr ''general'') (JStr ''p1'') p1_world
     = (Inr (JStr ''general'', p1_messages), p1_loaded)"
  "chat_prepare offline_env ''next step?'' (JStr ''general'') (JStr ''p1'') p1_world
     = (Inr (JStr ''general'', p1_messages), p1_loaded)"
  "chat_prepare null_reply_env ''next step?'' (JStr ''general'') (JStr ''p1'') p1_world
     = (Inr (JStr ''general'', p1_messages), p1_loaded)"
  by (simp_all add: chat_prepare_def loadUserProfile_def p1_world_def fresh_world_def
        classify_def styleInstruction_def get_prop_def p1_messages_def p1_loaded_def
        offline_env_def null_reply_env_def demo_env_def basePromptForMode_def historyText_def
        loadProject_def)

lemma p1_request:
  "own_prop (body_or_empty p1_body) ''message'' = JStr ''next step?''"
  "own_prop (body_or_empty p1_body) ''projectName'' = JStr ''p1''"
  "mode_or_auto (own_prop (body_or_empty p1_body) ''mode'') = JStr ''general''"
  by (simp_all add: p1_body_def body_or_empty_def mode_or_auto_def)

text \<open>
  C3. Take a chat request with a project name whose preparation (profile, mode, prompt)
  has gone through, so that the route sends \<open>messages\<close> to the chat model in world
  \<open>w2\<close>. If the chat model answers, the route appends exactly two turns to that
  project's conversation, the user's message and then the reply, touches no other
  project, and makes both appends after the call to the model. If the chat model rejects
  the call, the route answers with an error and the projects are as they were: no turn
  is appended. Before the call the log holds at most the router's own call to the model.
\<close>

theorem chat_appends_two_turns:
  assumes "own_prop (body_or_empty body) ''message'' = JStr msg"
      and "msg \<noteq> []"
      and "own_prop (body_or_empty body) ''projectName'' = projectName"
      and "truthy projectName"
      and "chat_prepare env msg (mode_or_auto (own_prop (body_or_empty body) ''mode''))
             projectName w = (Inr (chosenMode, messages), w2)"
  shows "(groq_create env (trace w2) messages = Inr c \<longrightarrow>
            fst (chat_route env body w) =
              Response 200 (JObj [(''ok'', JBool True), (''mode'', chosenMode),
                                  (''reply'', JStr (reply_text c))])
            \<and> conversation_of projectName (snd (chat_route env body w)) =
                conversation_of projectName w
                @ [\<lparr>role = ''user'', content = msg\<rparr>,
                   \<lparr>role = ''assistant'', content = reply_text c\<rparr>]
            \<and> (\<forall>q. q \<noteq> projectName \<longrightarrow>
                  projects (snd (chat_route env body w)) q = projects w q)
            \<and> trace (snd (chat_route env body w)) =
                trace w2 @ [GroqCall messages,
                            AppendConversation projectName ''user'' msg,
                            AppendConversation projectName ''assistant'' (reply_text c)])
         \<and> (groq_create env (trace w2) messages = Inl e \<longrightarrow>
              fst (chat_route env body w) =
                Response 500 (JObj [(''ok'', JBool False), (''error'', JStr ''AI error''),
                                    (''details'', JStr (String_err e))])
              \<and> projects (snd (chat_route env body w)) = projects w
              \<and> trace (snd (chat_route env body w)) = trace w2 @ [GroqCall messages])
         \<and> trace w2 =
             trace w @ (if mode_or_auto (own_prop (body_or_empty body) ''mode'') = JStr ''auto''
                        then [GroqCall (router_messages env msg)] else [])"
proof -
  note prep = assms(5) [folded assms(3)]
  have frame: "projects w2 = projects w"
    "trace w2 = trace w @ (if mode_or_auto (own_prop (body_or_empty body) ''mode'') = JStr ''auto''
                        then [GroqCall (router_messages env msg)] else [])"
    using chat_prepare_frame [OF assms(5)] by simp_all
  have conv: "conversation_of projectName (w2\<lparr>trace := t\<rparr>) = conversation_of projectName w" for t
    using frame(1) by (simp add: conversation_of_def loadProject_def)
  have ok: "fst (chat_route env body w) =
              Response 200 (JObj [(''ok'', JBool True), (''mode'', chosenMode),
                                  (''reply'', JStr (reply_text c))])
            \<and> conversation_of projectName (snd (chat_route env body w)) =
                conversation_of projectName w
                @ [\<lparr>role = ''user'', content = msg\<rparr>,
                   \<lparr>role = ''assistant'', content = reply_text c\<rparr>]
            \<and> (\<forall>q. q \<noteq> projectName \<longrightarrow>
                  projects (snd (chat_route env body w)) q = projects w q)
            \<and> trace (snd (chat_route env body w)) =
                trace w2 @ [GroqCall messages,
                            AppendConversation projectName ''user'' msg,
                            AppendConversation projectName ''assistant'' (reply_text c)]"
    if "groq_create env (trace w2) messages = Inr c"
    using chat_route_answered [OF assms(1,2) prep that] assms(3,4) frame(1) conv
    by (simp add: two_appends)
  have bad: "fst (chat_route env body w) =
                Response 500 (JObj [(''ok'', JBool False), (''error'', JStr ''AI error''),
                                    (''details'', JStr (String_err e))])
              \<and> projects (snd (chat_route env body w)) = projects w
              \<and> trace (snd (chat_route env body w)) = trace w2 @ [GroqCall messages]"
    if "groq_create env (trace w2) messages = Inl e"
    using chat_route_rejected [OF assms(1,2) prep that] frame(1) by simp
  show ?thesis using ok bad frame(2) by blast
qed

theorem chat_appends_two_turns_witness:
  "fst (chat_route demo_env p1_body p1_world) =
     Response 200 (JObj [(''ok'', JBool True), (''mode'', JStr ''general''),
                         (''reply'', JStr ''Use a water wheel.'')])
   \<and> conversation_of (JStr ''p1'') (snd (chat_route demo_env p1_body p1_world)) =
       six_turns @ [\<lparr>role = ''user'', content = ''next step?''\<rparr>,
                    \<lparr>role = ''assistant'', content = ''Use a water wheel.''\<rparr>]
   \<and> trace (snd (chat_route demo_env p1_body p1_world)) =
       [GroqCall p1_messages,
        AppendConversation (JStr ''p1'') ''user'' ''next step?'',
        AppendConversation (JStr ''p1'') ''assistant'' ''Use a water wheel.'']
   \<and> fst (chat_route offline_env p1_body p1_world) =
       Response 500 (JObj [(''ok'', JBool False), (''error'', JStr ''AI error''),
                           (''details'', JStr ''Error: Connection error.'')])
   \<and> projects (snd (chat_route offline_env p1_body p1_world)) = projects p1_world
   \<and> trace (snd (chat_route offline_env p1_body p1_world)) = [GroqCall p1_messages]"
proof -
  have answer: "groq_create demo_env tr p1_messages
                  = Inr (demo_completion (Some ''Use a water wheel.''))" for tr
    by (simp add: demo_env_def)
  have reject: "groq_create offline_env tr p1_messages = Inl offline_error" for tr
    by (simp add: offline_env_def)
  have before: "conversation_of (JStr ''p1'') p1_world = six_turns" "trace p1_loaded = []"
    by (simp_all add: conversation_of_def loadProject_def p1_world_def p1_loaded_def
          fresh_world_def)
  have texts: "reply_text (demo_completion (Some ''Use a water wheel.'')) = ''Use a water wheel.''"
    "String_err offline_error = ''Error: Connection error.''"
    by (simp_all add: reply_text_def first_content_def demo_completion_def offline_error_def
          String_err_def)
  have prep: "chat_prepare demo_env ''next step?''
                (mode_or_auto (own_prop (body_or_empty p1_body) ''mode'')) (JStr ''p1'') p1_world
                = (Inr (JStr ''general'', p1_messages), p1_loaded)"
    "chat_prepare offline_env ''next step?''
                (mode_or_auto (own_prop (body_or_empty p1_body) ''mode'')) (JStr ''p1'') p1_world
                = (Inr (JStr ''general'', p1_messages), p1_loaded)"
    by (simp_all add: p1_request p1_prepare)
  have ne: "''next step?'' \<noteq> []" and tr: "truthy (JStr ''p1'')" by simp_all
  from chat_appends_two_turns [OF p1_request(1) ne p1_request(2) tr prep(1),
         where c = "demo_completion (Some ''Use a water wheel.'')"]
       chat_appends_two_turns [OF p1_request(1) ne p1_request(2) tr prep(2),
         where e = offline_error]
  show ?thesis
    by (simp add: answer reject before texts)
qed

text \<open>
  C6, as amended. When the completion has no content (there is no first choice, the
  choice has no message, or the content is \<^verbatim>\<open>null\<close>), the reply of the chat route is the
  placeholder \<^verbatim>\<open>(no reply)\<close>. A content that is present is the reply as it is, the
  empty text included.
\<close>

theorem chat_reply_placeholder:
  assumes "own_prop (body_or_empty body) ''message'' = JStr msg"
      and "msg \<noteq> []"
      and "chat_prepare env msg (mode_or_auto (own_prop (body_or_empty body) ''mode''))
             (own_prop (body_or_empty body) ''projectName'') w = (Inr (chosenMode, messages), w2)"
      and "groq_create env (trace w2) messages = Inr c"
  shows "(first_content c = None \<longrightarrow>
            own_prop (payload (fst (chat_route env body w))) ''reply'' = JStr ''(no reply)'')
         \<and> (first_content c = Some t \<longrightarrow>
              own_prop (payload (fst (chat_route env body w))) ''reply'' = JStr t)
         \<and> first_content (Completion []) = None
         \<and> first_content (Completion (Choice None # rest)) = None
         \<and> first_content (Completion (Choice (Some (CompletionMessage None)) # rest)) = None
         \<and> first_content (Completion (Choice (Some (CompletionMessage (Some t))) # rest)) = Some t"
  using chat_route_answered [OF assms]
  by (simp add: reply_text_def first_content_def)

theorem chat_reply_placeholder_witness:
  "first_content (demo_completion None) = None
   \<and> own_prop (payload (fst (chat_route null_reply_env p1_body p1_world))) ''reply''
       = JStr ''(no reply)''
   \<and> first_content (demo_completion (Some ''Use a water wheel.'')) = Some ''Use a water wheel.''
   \<and> own_prop (payload (fst (chat_route demo_env p1_body p1_world))) ''reply''
       = JStr ''Use a water wheel.''"
proof -
  have missing: "groq_create null_reply_env tr p1_messages
                   = Inr (demo_completion None)" for tr
    by (simp add: null_reply_env_def)
  have answer: "groq_create demo_env tr p1_messages
                  = Inr (demo_completion (Some ''Use a water wheel.''))" for tr
    by (simp add: demo_env_def)
  have contents: "first_content (demo_completion None) = None"
    "first_content (demo_completion (Some ''Use a water wheel.'')) = Some ''Use a water wheel.''"
    by (simp_all add: first_content_def demo_completion_def)
  have prep: "chat_prepare null_reply_env ''next step?''
                (mode_or_auto (own_prop (body_or_empty p1_body) ''mode''))
                (own_prop (body_or_empty p1_body) ''projectName'') p1_world
                = (Inr (JStr ''general'', p1_messages), p1_loaded)"
    "chat_prepare demo_env ''next step?''
                (mode_or_auto (own_prop (body_or_empty p1_body) ''mode''))
                (own_prop (body_or_empty p1_body) ''projectName'') p1_world
                = (Inr (JStr ''general'', p1_messages), p1_loaded)"
    by (simp_all add: p1_request p1_prepare)
  have ne: "''next step?'' \<noteq> []" by simp
  from chat_reply_placeholder [OF p1_request(1) ne prep(1) missing]
       chat_reply_placeholder [OF p1_request(1) ne prep(2) answer,
         where t = "''Use a water wheel.''"]
  show ?thesis
    by (simp add: contents)
qed

text \<open>
  As first stated the claim also promises the placeholder for an empty completion text.
  The \<^verbatim>\<open>??\<close> of \<open>groqChat\<close> replaces \<^verbatim>\<open>null\<close> and \<^verbatim>\<open>undefined\<close> only: the reply to an
  empty completion text is the empty text.
\<close>

theorem empty_completion_counterexample:
  "first_content (demo_completion (Some [])) = Some []
   \<and> fst (chat_route empty_reply_env
            (JObj [(''message'', JStr ''hi''), (''mode'', JStr ''general'')]) fresh_world) =
       Response 200 (JObj [(''ok'', JBool True), (''mode'', JStr ''general''),
                           (''reply'', JStr [])])
   \<and> JStr [] \<noteq> JStr ''(no reply)''"
  by (simp add: chat_route_def chat_handle_def chat_prepare_def groqChat_def
        loadUserProfile_def classify_def styleInstruction_def get_prop_def
        body_or_empty_def mode_or_auto_def fresh_world_def
        empty_reply_env_def demo_env_def defaultProfile_def
        reply_text_def first_content_def demo_completion_def Let_def)

section \<open>Prompt composition\<close>

lemma last4_nth:
  assumes "4 \<le> length xs"
  shows "last4 xs = [xs ! (length xs - 4), xs ! (length xs - 3), xs ! (length xs - 2),
                     xs ! (length xs - 1)]"
proof (rule nth_equalityI)
  show "length (last4 xs) = length [xs ! (length xs - 4), xs ! (length xs - 3),
          xs ! (length xs - 2), xs ! (length xs - 1)]"
    using assms by (simp add: last4_def)
next
  fix i
  assume "i < length (last4 xs)"
  then have "i < 4" using assms by (simp add: last4_def)
  then consider "i = 0" | "i = 1" | "i = 2" | "i = 3" by linarith
  then show "last4 xs ! i = [xs ! (length xs - 4), xs ! (length xs - 3),
          xs ! (length xs - 2), xs ! (length xs - 1)] ! i"
  proof cases
    case 1 then show ?thesis using assms by (simp add: last4_def)
  next
    case 2
    have "length xs - 4 + 1 = length xs - 3" using assms by arith
    with 2 show ?thesis using assms by (simp add: last4_def)
  next
    case 3
    have "length xs - 4 + 2 = length xs - 2" using assms by arith
    with 3 show ?thesis using assms by (simp add: last4_def)
  next
    case 4
    have "length xs - 4 + 3 = length xs - 1" using assms by arith
    with 4 show ?thesis using assms by (simp add: last4_def)
  qed
qed

lemma compose_with_history:
  "h \<noteq> [] \<Longrightarrow>
     compose mp st h = js_join ''\<newline>\<newline>'' (filter (\<lambda>s. s \<noteq> []) [mp, st] @ [h])"
  by (simp add: compose_def)

lemma compose_three:
  "mp \<noteq> [] \<Longrightarrow> st \<noteq> [] \<Longrightarrow> h \<noteq> [] \<Longrightarrow>
     compose mp st h = mp @ ''\<newline>\<newline>'' @ st @ ''\<newline>\<newline>'' @ h"
  by (simp add: compose_def)

lemma history_block_window:
  assumes "4 < length conv"
  shows "history_block conv =
          ''Recent project messages:\<newline>''
          @ render_turn (conv ! (length conv - 4)) @ ''\<newline>''
          @ render_turn (conv ! (length conv - 3)) @ ''\<newline>''
          @ render_turn (conv ! (length conv - 2)) @ ''\<newline>''
          @ render_turn (conv ! (length conv - 1))"
proof -
  from assms have "4 \<le> length conv" and "conv \<noteq> []" by auto
  then show ?thesis by (simp add: history_block_def last4_nth)
qed

lemma historyText_projects:
  "projects w' = projects w \<Longrightarrow> historyText name w' = historyText name w"
  by (simp add: historyText_def loadProject_def)

lemma chat_prepare_messages:
  assumes "chat_prepare env msg mode name w = (Inr (chosenMode, messages), w2)"
  shows "\<exists>styleText.
           styleInstruction env (fst (loadUserProfile env w)) = Inr styleText
           \<and> messages =
               [\<lparr>role = ''system'',
                 content = compose (basePromptForMode env chosenMode) styleText
                             (historyText name w)\<rparr>,
                \<lparr>role = ''user'', content = msg\<rparr>]"
proof -
  obtain profile w1 where load: "loadUserProfile env w = (profile, w1)"
    by (cases "loadUserProfile env w")
  obtain cm w2' where cls: "classify env msg mode w1 = (cm, w2')"
    by (cases "classify env msg mode w1")
  from assms load cls obtain styleText where
    style: "styleInstruction env profile = Inr styleText"
    and res: "chosenMode = cm" "w2 = w2'"
      "messages =
         [\<lparr>role = ''system'',
           content = compose (basePromptForMode env cm) styleText (historyText name w2')\<rparr>,
          \<lparr>role = ''user'', content = msg\<rparr>]"
    by (auto simp: chat_prepare_def Let_def split: sum.splits)
  have "projects w2' = projects w"
    using chat_prepare_frame(1) [OF assms] res(2) by simp
  then have "historyText name w2' = historyText name w" by (rule historyText_projects)
  with style res load show ?thesis by simp
qed

text \<open>
  C5. The history block is left out altogether when there is no project name, no such
  project or an empty conversation: the composed text is then the persona prompt and the
  style block alone. For a conversation of more than four turns the block is the header
  line followed by exactly the last four turns in their original order, one
  \<^verbatim>\<open>[role] content\<close> line each, with the content cut to its first 200 characters; the
  composed text then ends with this block, after the persona prompt and the style block
  (those of them that are not empty), the parts a blank line apart. The composed text is
  the system message the chat route sends, with the history of the named project.
\<close>

theorem compose_history_window:
  "history_block [] = []
   \<and> (\<not> truthy name \<longrightarrow> historyText name w = [])
   \<and> (loadProject name w = None \<longrightarrow> historyText name w = [])
   \<and> (loadProject name w = Some p \<and> conversation p = [] \<longrightarrow> historyText name w = [])
   \<and> compose modePrompt styleText [] =
        js_join ''\<newline>\<newline>'' (filter (\<lambda>s. s \<noteq> []) [modePrompt, styleText])
   \<and> (truthy name \<and> loadProject name w = Some p \<longrightarrow>
        historyText name w = history_block (conversation p))
   \<and> (4 < length conv \<longrightarrow>
        history_block conv =
          ''Recent project messages:\<newline>''
          @ render_turn (conv ! (length conv - 4)) @ ''\<newline>''
          @ render_turn (conv ! (length conv - 3)) @ ''\<newline>''
          @ render_turn (conv ! (length conv - 2)) @ ''\<newline>''
          @ render_turn (conv ! (length conv - 1)))
   \<and> render_turn m = ''['' @ role m @ ''] '' @ take 200 (content m)
   \<and> length (take 200 (content m)) \<le> 200
   \<and> (4 < length conv \<longrightarrow>
        compose modePrompt styleText (history_block conv) =
          js_join ''\<newline>\<newline>''
            (filter (\<lambda>s. s \<noteq> []) [modePrompt, styleText]
             @ [''Recent project messages:\<newline>''
                @ render_turn (conv ! (length conv - 4)) @ ''\<newline>''
                @ render_turn (conv ! (length conv - 3)) @ ''\<newline>''
                @ render_turn (conv ! (length conv - 2)) @ ''\<newline>''
                @ render_turn (conv ! (length conv - 1))]))
   \<and> (4 < length conv \<and> modePrompt \<noteq> [] \<and> styleText \<noteq> [] \<longrightarrow>
        compose modePrompt styleText (history_block conv) =
          modePrompt @ ''\<newline>\<newline>'' @ styleText @ ''\<newline>\<newline>''
          @ ''Recent project messages:\<newline>''
          @ render_turn (conv ! (length conv - 4)) @ ''\<newline>''
          @ render_turn (conv ! (length conv - 3)) @ ''\<newline>''
          @ render_turn (conv ! (length conv - 2)) @ ''\<newline>''
          @ render_turn (conv ! (length conv - 1)))
   \<and> (chat_prepare env msg mode name w = (Inr (chosenMode, messages), w2) \<longrightarrow>
        (\<exists>style. styleInstruction env (fst (loadUserProfile env w)) = Inr style
           \<and> messages =
               [\<lparr>role = ''system'',
                 content = compose (basePromptForMode env chosenMode) style
                             (historyText name w)\<rparr>,
                \<lparr>role = ''user'', content = msg\<rparr>]))"
proof -
  have block: "history_block conv \<noteq> []" if "4 < length conv"
    using history_block_window [OF that] by simp
  have rest: "history_block [] = []" "\<not> truthy name \<longrightarrow> historyText name w = []"
    "loadProject name w = None \<longrightarrow> historyText name w = []"
    "loadProject name w = Some p \<and> conversation p = [] \<longrightarrow> historyText name w = []"
    "truthy name \<and> loadProject name w = Some p \<longrightarrow>
        historyText name w = history_block (conversation p)"
    by (simp_all add: history_block_def historyText_def)
  have comp: "compose modePrompt styleText [] =
        js_join ''\<newline>\<newline>'' (filter (\<lambda>s. s \<noteq> []) [modePrompt, styleText])"
    by (simp add: compose_def)
  have win: "4 < length conv \<longrightarrow>
        history_block conv =
          ''Recent project messages:\<newline>''
          @ render_turn (conv ! (length conv - 4)) @ ''\<newline>''
          @ render_turn (conv ! (length conv - 3)) @ ''\<newline>''
          @ render_turn (conv ! (length conv - 2)) @ ''\<newline>''
          @ render_turn (conv ! (length conv - 1))"
    using history_block_window by blast
  have joined: "4 < length conv \<longrightarrow>
        compose modePrompt styleText (history_block conv) =
          js_join ''\<newline>\<newline>''
            (filter (\<lambda>s. s \<noteq> []) [modePrompt, styleText]
             @ [''Recent project messages:\<newline>''
                @ render_turn (conv ! (length conv - 4)) @ ''\<newline>''
                @ render_turn (conv ! (length conv - 3)) @ ''\<newline>''
                @ render_turn (conv ! (length conv - 2)) @ ''\<newline>''
                @ render_turn (conv ! (length conv - 1))])"
  proof
    assume long: "4 < length conv"
    have "compose modePrompt styleText (history_block conv) =
            js_join ''\<newline>\<newline>''
              (filter (\<lambda>s. s \<noteq> []) [modePrompt, styleText] @ [history_block conv])"
      by (rule compose_with_history [OF block [OF long]])
    then show "compose modePrompt styleText (history_block conv) =
          js_join ''\<newline>\<newline>''
            (filter (\<lambda>s. s \<noteq> []) [modePrompt, styleText]
             @ [''Recent project messages:\<newline>''
                @ render_turn (conv ! (length conv - 4)) @ ''\<newline>''
                @ render_turn (conv ! (length conv - 3)) @ ''\<newline>''
                @ render_turn (conv ! (length conv - 2)) @ ''\<newline>''
                @ render_turn (conv ! (length conv - 1))])"
      by (simp only: history_block_window [OF long, symmetric])
  qed
  have three: "4 < length conv \<and> modePrompt \<noteq> [] \<and> styleText \<noteq> [] \<longrightarrow>
        compose modePrompt styleText (history_block conv) =
          modePrompt @ ''\<newline>\<newline>'' @ styleText @ ''\<newline>\<newline>''
          @ ''Recent project messages:\<newline>''
          @ render_turn (conv ! (length conv - 4)) @ ''\<newline>''
          @ render_turn (conv ! (length conv - 3)) @ ''\<newline>''
          @ render_turn (conv ! (length conv - 2)) @ ''\<newline>''
          @ render_turn (conv ! (length conv - 1))"
  proof
    assume a: "4 < length conv \<and> modePrompt \<noteq> [] \<and> styleText \<noteq> []"
    then have long: "4 < length conv" and mp: "modePrompt \<noteq> []" and st: "styleText \<noteq> []"
      by simp_all
    have "compose modePrompt styleText (history_block conv) =
            modePrompt @ ''\<newline>\<newline>'' @ styleText @ ''\<newline>\<newline>'' @ history_block conv"
      by (rule compose_three [OF mp st block [OF long]])
    then show "compose modePrompt styleText (history_block conv) =
          modePrompt @ ''\<newline>\<newline>'' @ styleText @ ''\<newline>\<newline>''
          @ ''Recent project messages:\<newline>''
          @ render_turn (conv ! (length conv - 4)) @ ''\<newline>''
          @ render_turn (conv ! (length conv - 3)) @ ''\<newline>''
          @ render_turn (conv ! (length conv - 2)) @ ''\<newline>''
          @ render_turn (conv ! (length conv - 1))"
      by (simp only: history_block_window [OF long, symmetric])
  qed
  have sent: "chat_prepare env msg mode name w = (Inr (chosenMode, messages), w2) \<longrightarrow>
        (\<exists>style. styleInstruction env (fst (loadUserProfile env w)) = Inr style
           \<and> messages =
               [\<lparr>role = ''system'',
                 content = compose (basePromptForMode env chosenMode) style
                             (historyText name w)\<rparr>,
                \<lparr>role = ''user'', content = msg\<rparr>])"
    using chat_prepare_messages by blast
  have turn: "render_turn m = ''['' @ role m @ ''] '' @ take 200 (content m)"
    "length (take 200 (content m)) \<le> 200"
    by (simp_all add: render_turn_def)
  show ?thesis
    by (intro conjI) (rule rest comp win turn joined three sent)+
qed

theorem compose_history_window_witness:
  \<open>4 < length six_turns
   \<and> history_block six_turns =
       ''Recent project messages:\<newline>[user] three\<newline>[assistant] ''
       @ replicate 200 (CHR ''x'') @ ''\<newline>[user] five\<newline>[assistant] six''
   \<and> length (content long_turn) = 250
   \<and> compose ''Persona.'' ''Style.'' (history_block six_turns) =
       ''Persona.\<newline>\<newline>Style.\<newline>\<newline>Recent project messages:\<newline>[user] three\<newline>[assistant] ''
       @ replicate 200 (CHR ''x'') @ ''\<newline>[user] five\<newline>[assistant] six''
   \<and> truthy (JStr ''p1'')
   \<and> loadProject (JStr ''p1'') p1_world = Some \<lparr>conversation = six_turns, schematics = []\<rparr>
   \<and> historyText (JStr ''p1'') p1_world = history_block six_turns
   \<and> loadProject (JStr ''p2'') p1_world = None
   \<and> historyText (JStr ''p2'') p1_world = []
   \<and> historyText JNull p1_world = []
   \<and> compose ''Persona.'' ''Style.'' (historyText (JStr ''p2'') p1_world)
       = ''Persona.\<newline>\<newline>Style.''
   \<and> chat_prepare demo_env ''next step?'' (JStr ''general'') (JStr ''p1'') p1_world =
       (Inr (JStr ''general'',
             [\<lparr>role = ''system'',
               content =
                 ''You are a helpful assistant.\<newline>\<newline>User style settings:\<newline>- tone: friendly\<newline>- detail: medium\<newline>- emojis: some\<newline>- formatting: markdown\<newline>\<newline>Respect these settings while answering.\<newline>\<newline>Recent project messages:\<newline>[user] three\<newline>[assistant] ''
                 @ replicate 200 (CHR ''x'') @ ''\<newline>[user] five\<newline>[assistant] six''\<rparr>,
              \<lparr>role = ''user'', content = ''next step?''\<rparr>]), p1_loaded)\<close>
proof -
  have prep: "chat_prepare demo_env ''next step?'' (JStr ''general'') (JStr ''p1'') p1_world =
                (Inr (JStr ''general'', p1_messages), p1_loaded)"
    by (rule p1_prepare(1))
  have sent: "p1_messages =
       [\<lparr>role = ''system'',
         content =
           ''You are a helpful assistant.\<newline>\<newline>User style settings:\<newline>- tone: friendly\<newline>- detail: medium\<newline>- emojis: some\<newline>- formatting: markdown\<newline>\<newline>Respect these settings while answering.\<newline>\<newline>Recent project messages:\<newline>[user] three\<newline>[assistant] ''
           @ replicate 200 (CHR ''x'') @ ''\<newline>[user] five\<newline>[assistant] six''\<rparr>,
        \<lparr>role = ''user'', content = ''next step?''\<rparr>]"
    by (simp add: p1_messages_def demo_env_def styleInstruction_def get_prop_def
          defaultProfile_def compose_def history_block_def last4_def six_turns_def
          long_turn_def render_turn_def)
  have blocks: "4 < length six_turns
     \<and> history_block six_turns =
         ''Recent project messages:\<newline>[user] three\<newline>[assistant] ''
         @ replicate 200 (CHR ''x'') @ ''\<newline>[user] five\<newline>[assistant] six''
     \<and> length (content long_turn) = 250
     \<and> compose ''Persona.'' ''Style.'' (history_block six_turns) =
         ''Persona.\<newline>\<newline>Style.\<newline>\<newline>Recent project messages:\<newline>[user] three\<newline>[assistant] ''
         @ replicate 200 (CHR ''x'') @ ''\<newline>[user] five\<newline>[assistant] six''
     \<and> truthy (JStr ''p1'')
     \<and> loadProject (JStr ''p1'') p1_world = Some \<lparr>conversation = six_turns, schematics = []\<rparr>
     \<and> historyText (JStr ''p1'') p1_world = history_block six_turns
     \<and> loadProject (JStr ''p2'') p1_world = None
     \<and> historyText (JStr ''p2'') p1_world = []
     \<and> historyText JNull p1_world = []
     \<and> compose ''Persona.'' ''Style.'' (historyText (JStr ''p2'') p1_world)
         = ''Persona.\<newline>\<newline>Style.''"
    using compose_history_window [where conv = six_turns and m = long_turn
            and modePrompt = "''Persona.''" and styleText = "''Style.''"
            and name = "JStr ''p1''" and w = p1_world
            and p = "\<lparr>conversation = six_turns, schematics = []\<rparr>"]
          compose_history_window [where name = "JStr ''p2''" and w = p1_world
            and modePrompt = "''Persona.''" and styleText = "''Style.''"]
          compose_history_window [where name = JNull and w = p1_world]
    by (simp add: six_turns_def long_turn_def render_turn_def p1_world_def fresh_world_def
          loadProject_def)
  have prepared: "chat_prepare demo_env ''next step?'' (JStr ''general'') (JStr ''p1'') p1_world =
       (Inr (JStr ''general'',
             [\<lparr>role = ''system'',
               content =
                 ''You are a helpful assistant.\<newline>\<newline>User style settings:\<newline>- tone: friendly\<newline>- detail: medium\<newline>- emojis: some\<newline>- formatting: markdown\<newline>\<newline>Respect these settings while answering.\<newline>\<newline>Recent project messages:\<newline>[user] three\<newline>[assistant] ''
                 @ replicate 200 (CHR ''x'') @ ''\<newline>[user] five\<newline>[assistant] six''\<rparr>,
              \<lparr>role = ''user'', content = ''next step?''\<rparr>]), p1_loaded)"
    unfolding sent [symmetric] by (rule prep)
  show ?thesis
    using blocks prepared by (elim conjE) (intro conjI, assumption+)
qed

section \<open>The style update\<close>








text \<open>
  A defect of the route. \<open>saveUserProfile\<close> keeps the default of every field its
  argument lacks, and \<^verbatim>\<open>{ ...defaultProfile, ...style }\<close> is there for that. The route,
  though, always hands it all four fields, those the body leaves out as \<^verbatim>\<open>undefined\<close>,
  and an \<^verbatim>\<open>undefined\<close> overrides the default in the spread. After \<^verbatim>\<open>{tone: "blunt"}\<close> the
  profile answered has \<^verbatim>\<open>detail\<close>, \<^verbatim>\<open>emojis\<close> and \<^verbatim>\<open>formatting\<close> undefined and the style
  file holds the tone alone, where \<open>saveUserProfile\<close> on \<^verbatim>\<open>{tone: "blunt"}\<close> has detail
  \<^verbatim>\<open>medium\<close>.
\<close>

theorem style_route_defaults_lost:
  \<open>own_prop (fst (saveUserProfile env [(''tone'', JStr ''blunt'')] w)) ''detail''
     = JStr ''medium''
   \<and> own_prop (own_prop (payload (fst (style_route env blunt_only_body w))) ''profile'')
        ''detail'' = JUndefined
   \<and> fst (style_route env blunt_only_body w) =
       Response 200
         (JObj [(''ok'', JBool True),
                (''profile'',
                 JObj [(''tone'', JStr ''blunt''), (''detail'', JUndefined),
                       (''emojis'', JUndefined), (''formatting'', JUndefined)])])
   \<and> profile_file (snd (style_route demo_env blunt_only_body fresh_world)) =
       Some ''{\<newline>  "tone": "blunt"\<newline>}''\<close>
  by (simp add: style_route_def saveUserProfile_def obj_spread_def defaultProfile_def
        body_or_empty_def blunt_only_body_def demo_env_def demo_stringify_def fresh_world_def
        Let_def)

end
